theory Spec2Isabelle
  imports Complex_Main
begin

section \<open>The inbound messaging handler (messaging/InboundHandlerV2.mjs)\<close>

text \<open>
  The handler is one asynchronous JavaScript function. It reads an event, validates it,
  looks a session record up in a DynamoDB table, tries to reuse the stored participant
  connection and otherwise creates a new chat contact, and writes the new session record.
  The embedding keeps JavaScript's dynamic values, makes every thrown error a value and
  threads the state of the outside world (the table and the log of service calls)
  through every call the handler awaits. Console logging has no effect on the result
  and is left out.
\<close>

subsection \<open>JavaScript values\<close>

text \<open>
  A JavaScript number is a finite double, an infinity or NaN. The handler never
  calculates with the numbers it receives: it only tests them for truthiness and compares
  them with a string, so a finite number is kept as the rational it denotes.
\<close>

datatype jsnum = Finite rat | Infinity bool | NaN

datatype jsval =
    JUndefined
  | JNull
  | JBool bool
  | JNum jsnum
  | JStr string
  | JArr "jsval list"
  | JObj "(string \<times> jsval) list"

type_synonym jsobj = "(string \<times> jsval) list"

text \<open>An \<open>Error\<close> object, with its \<open>name\<close> and its \<open>message\<close>.\<close>

datatype js_error = JsError (err_name: string) (message: string)

text \<open>
  \<open>!v\<close> is \<open>\<not> truthy v\<close>: the falsy values are \<open>undefined\<close>, \<open>null\<close>, \<open>false\<close>,
  zero, NaN and the empty string.
\<close>

fun truthy :: "jsval \<Rightarrow> bool" where
  "truthy JUndefined = False"
| "truthy JNull = False"
| "truthy (JBool b) = b"
| "truthy (JNum (Finite q)) = (q \<noteq> 0)"
| "truthy (JNum (Infinity _)) = True"
| "truthy (JNum NaN) = False"
| "truthy (JStr s) = (s \<noteq> [])"
| "truthy (JArr _) = True"
| "truthy (JObj _) = True"

text \<open>An own property of an object; a property that is not there reads as \<open>undefined\<close>.\<close>

definition own :: "jsobj \<Rightarrow> string \<Rightarrow> jsval" where
  "own fs k = (case map_of fs k of None \<Rightarrow> JUndefined | Some v \<Rightarrow> v)"

text \<open>
  \<open>v.k\<close> for the property names the handler reads (none of them is a built-in property
  of strings, numbers, booleans or arrays): reading a property of \<open>undefined\<close> or
  \<open>null\<close> throws a TypeError, reading one of any other value that does not have it
  yields \<open>undefined\<close>. The wording of the TypeError's message is the engine's.
\<close>

definition type_error :: "string \<Rightarrow> string \<Rightarrow> js_error" where
  "type_error what k =
     JsError ''TypeError'' (''Cannot read properties of '' @ what @ '' (reading '' @ k @ '')'')"

fun get_prop :: "jsval \<Rightarrow> string \<Rightarrow> js_error + jsval" where
  "get_prop JUndefined k = Inl (type_error ''undefined'' k)"
| "get_prop JNull k = Inl (type_error ''null'' k)"
| "get_prop (JObj fs) k = Inr (own fs k)"
| "get_prop _ k = Inr JUndefined"

text \<open>\<open>v.k\<close> where \<open>v\<close> is known to be neither \<open>undefined\<close> nor \<open>null\<close>.\<close>

fun peek :: "jsval \<Rightarrow> string \<Rightarrow> jsval" where
  "peek (JObj fs) k = own fs k"
| "peek _ k = JUndefined"

text \<open>\<open>n.toString()\<close> for an integer \<open>n\<close>: its decimal digits.\<close>

function digits :: "int \<Rightarrow> string" where
  "digits n = (if n < 10 then [char_of (48 + n)]
               else digits (n div 10) @ [char_of (48 + n mod 10)])"
  by pat_completeness auto
termination
  by (relation "measure nat") auto

declare digits.simps [simp del]

definition toString :: "int \<Rightarrow> string" where
  "toString n = (if n < 0 then CHR ''-'' # digits (- n) else digits n)"

subsection \<open>Results\<close>

text \<open>
  The body of a result is a string: either a literal text or what \<open>JSON.stringify\<close>
  makes of an object. \<open>Json fs\<close> stands for the JSON text of the object with the
  properties \<open>fs\<close>; \<open>JSON.stringify\<close> leaves out the properties whose value is
  \<open>undefined\<close>.
\<close>

datatype body = Text string | Json jsobj

definition stringify :: "jsobj \<Rightarrow> body" where
  "stringify fs = Json (filter (\<lambda>(k, v). v \<noteq> JUndefined) fs)"

record result =
  statusCode :: nat
  body :: body

text \<open>An invocation either returns a result or ends with an uncaught error.\<close>

datatype outcome = Returned result | Thrown js_error

subsection \<open>The outside world\<close>

datatype command =
    GetItemCommand
  | PutItemCommand
  | SendMessageCommand
  | StartChatContactCommand
  | StartContactStreamingCommand
  | CreateParticipantConnectionCommand

text \<open>
  The world is the DynamoDB table, keyed by the string attribute \<open>originatingNumber\<close>,
  and the log of the commands sent so far, each with its input and with what came back.
\<close>

record world =
  table :: "jsval \<Rightarrow> jsval option"
  calls :: "(command \<times> jsval \<times> (js_error + jsobj)) list"

text \<open>
  What the handler cannot decide is a parameter: the two built-ins \<open>JSON.parse\<close>
  (\<open>Inl\<close> is the SyntaxError it throws) and \<open>parseInt\<close> (\<open>None\<close> is NaN), the clock
  \<open>Date.now()\<close> in milliseconds, whether a DynamoDB command fails, and every answer of
  the Connect and Connect Participant services. The services may answer differently
  each time: they see the world, and with it the log.
\<close>

record services =
  json_parse :: "jsval \<Rightarrow> js_error + jsval"
  parse_int :: "jsval \<Rightarrow> int option"
  date_now :: "world \<Rightarrow> int"
  fault :: "world \<Rightarrow> command \<Rightarrow> jsval \<Rightarrow> js_error option"
  respond :: "world \<Rightarrow> command \<Rightarrow> jsval \<Rightarrow> js_error + jsobj"

text \<open>The environment variables the handler reads (\<open>undefined\<close> when not set).\<close>

record config =
  DYNAMO_TABLE_NAME :: jsval
  CONNECT_INSTANCE_ID :: jsval
  CONTACT_FLOW_ID :: jsval
  SNS_STREAMING_ARN :: jsval
  SESSION_TTL_HOURS :: jsval

text \<open>
  \<open>await client.send(new Command(params))\<close>. The table is the key-value store of the
  specification's external interfaces, with its \<open>get\<close> and its \<open>put\<close>: a
  \<open>GetItemCommand\<close> that does not fail answers with the item stored under the key, if
  there is one; a \<open>PutItemCommand\<close> that does not fail stores its item under the item's
  key and one that fails stores nothing; no other command touches the table. Every
  command is logged.
\<close>

definition answer :: "services \<Rightarrow> command \<Rightarrow> jsval \<Rightarrow> world \<Rightarrow> js_error + jsobj" where
  "answer sv c params w =
     (case c of
        GetItemCommand \<Rightarrow>
          (case fault sv w c params of
             Some e \<Rightarrow> Inl e
           | None \<Rightarrow>
               (case table w (peek (peek (peek params ''Key'') ''originatingNumber'') ''S'') of
                  None \<Rightarrow> Inr []
                | Some item \<Rightarrow> Inr [(''Item'', item)]))
      | PutItemCommand \<Rightarrow>
          (case fault sv w c params of Some e \<Rightarrow> Inl e | None \<Rightarrow> Inr [])
      | _ \<Rightarrow> respond sv w c params)"

definition send :: "services \<Rightarrow> command \<Rightarrow> jsval \<Rightarrow> world \<Rightarrow> (js_error + jsobj) \<times> world" where
  "send sv c params w =
     (let out = answer sv c params w;
          item = peek params ''Item'';
          written = (case (c, out) of
                       (PutItemCommand, Inr _) \<Rightarrow>
                         (table w)(peek (peek item ''originatingNumber'') ''S'' \<mapsto> item)
                     | _ \<Rightarrow> table w)
      in (out, \<lparr>table = written, calls = calls w @ [(c, params, out)]\<rparr>))"

subsection \<open>Reading and validating the event (lines 27 to 72)\<close>

text \<open>
  The outcome of validation: a result returned at once, or the triple
  \<open>firstMessage\<close>, \<open>originatingNumber\<close>, \<open>content\<close> the rest of the handler works on.
\<close>

datatype request = Reject result | Accept jsval jsval jsval

definition missing_data :: result where
  "missing_data = \<lparr>statusCode = 400, body = Text ''Missing data''\<rparr>"

text \<open>
  Lines 27 to 65. The body is parsed before anything is checked, and outside the
  \<open>try\<close> block: an error thrown here (by \<open>JSON.parse\<close>, or by reading a property of a
  body that parsed to \<open>null\<close>) is not caught.
\<close>

definition read_request :: "services \<Rightarrow> jsval \<Rightarrow> js_error + request" where
  "read_request sv event =
     (case get_prop event ''rawPath'' of
        Inl e \<Rightarrow> Inl e
      | Inr rawPath \<Rightarrow>
     (case get_prop event ''body'' of
        Inl e \<Rightarrow> Inl e
      | Inr eventBody \<Rightarrow>
     (case (if truthy eventBody then json_parse sv eventBody else Inr (JObj [])) of
        Inl e \<Rightarrow> Inl e
      | Inr parsedBody \<Rightarrow>
          if rawPath = JStr ''/salesforce'' then
            (case get_prop parsedBody ''firstMessage'' of
               Inl e \<Rightarrow> Inl e
             | Inr firstMessage \<Rightarrow>
            (case get_prop parsedBody ''originatingNumber'' of
               Inl e \<Rightarrow> Inl e
             | Inr originatingNumber \<Rightarrow>
            (case get_prop parsedBody ''content'' of
               Inl e \<Rightarrow> Inl e
             | Inr content \<Rightarrow>
                 if \<not> truthy originatingNumber \<or> \<not> truthy firstMessage
                 then Inr (Reject missing_data)
                 else Inr (Accept firstMessage originatingNumber content))))
          else if rawPath = JStr ''/modica'' then
            (case get_prop parsedBody ''source'' of
               Inl e \<Rightarrow> Inl e
             | Inr originatingNumber \<Rightarrow>
            (case get_prop parsedBody ''destination'' of
               Inl e \<Rightarrow> Inl e
             | Inr destinationNumber \<Rightarrow>
            (case get_prop parsedBody ''content'' of
               Inl e \<Rightarrow> Inl e
             | Inr content \<Rightarrow>
                 if \<not> truthy originatingNumber \<or> \<not> truthy destinationNumber
                 then Inr (Reject missing_data)
                 else Inr (Accept JUndefined originatingNumber content))))
          else Inr (Reject missing_data))))"

subsection \<open>Creating a new session (lines 113 to 194)\<close>

text \<open>The item written at lines 186 to 191.\<close>

definition session_item :: "jsval \<Rightarrow> jsval \<Rightarrow> jsval \<Rightarrow> string \<Rightarrow> jsval" where
  "session_item originatingNumber ContactId newToken expiry =
     JObj [(''originatingNumber'', JObj [(''S'', originatingNumber)]),
           (''ContactId'', JObj [(''S'', ContactId)]),
           (''ConnectionToken'', JObj [(''S'', newToken)]),
           (''expiryDateTime'', JObj [(''N'', JStr expiry)])]"

text \<open>Lines 116 to 137: the parameters of the new contact, with the rehydration request.\<close>

definition startChatParams :: "config \<Rightarrow> jsval \<Rightarrow> jsval \<Rightarrow> jsval \<Rightarrow> jsval" where
  "startChatParams cfg firstMessage originatingNumber previousContactId =
     JObj ([(''InstanceId'', CONNECT_INSTANCE_ID cfg),
            (''ContactFlowId'', CONTACT_FLOW_ID cfg),
            (''Attributes'', JObj [(''CustomerNumber'', originatingNumber),
                                   (''FirstMessage'', firstMessage)]),
            (''ParticipantDetails'', JObj [(''DisplayName'', originatingNumber)])]
           @ (if truthy previousContactId
              then [(''PersistentChat'',
                       JObj [(''RehydrationType'', JStr ''FROM_SEGMENT''),
                             (''SourceContactId'', previousContactId)])]
              else []))"

definition streamingParams :: "config \<Rightarrow> jsval \<Rightarrow> jsval" where
  "streamingParams cfg ContactId =
     JObj [(''InstanceId'', CONNECT_INSTANCE_ID cfg),
           (''ContactId'', ContactId),
           (''ChatStreamingConfiguration'',
              JObj [(''StreamingEndpointArn'', SNS_STREAMING_ARN cfg)])]"

definition connectionParams :: "jsval \<Rightarrow> jsval" where
  "connectionParams ParticipantToken =
     JObj [(''ParticipantToken'', ParticipantToken),
           (''Type'', JArr [JStr ''CONNECTION_CREDENTIALS'']),
           (''ConnectParticipant'', JBool True)]"

definition messageParams :: "jsval \<Rightarrow> jsval \<Rightarrow> jsval" where
  "messageParams content token =
     JObj [(''ContentType'', JStr ''text/plain''),
           (''Content'', content),
           (''ConnectionToken'', token)]"

text \<open>
  Lines 178 to 182, on integers: \<open>parseInt(...) || 24\<close> is 24 when \<open>parseInt\<close> yields NaN
  or zero, and \<open>Math.floor(Date.now() / 1000)\<close> is the floor division.
\<close>

definition expirationTime :: "services \<Rightarrow> config \<Rightarrow> world \<Rightarrow> int" where
  "expirationTime sv cfg w =
     (let ttlHours = (case parse_int sv (SESSION_TTL_HOURS cfg) of
                        None \<Rightarrow> 24
                      | Some n \<Rightarrow> if n = 0 then 24 else n);
          nowInSeconds = date_now sv w div 1000
      in nowInSeconds + ttlHours * 3600)"

definition putParams :: "services \<Rightarrow> config \<Rightarrow> world \<Rightarrow> jsval \<Rightarrow> jsval \<Rightarrow> jsval \<Rightarrow> jsval" where
  "putParams sv cfg w originatingNumber ContactId newToken =
     JObj [(''TableName'', DYNAMO_TABLE_NAME cfg),
           (''Item'', session_item originatingNumber ContactId newToken
                        (toString (expirationTime sv cfg w)))]"

definition created :: "jsval \<Rightarrow> result" where
  "created ContactId =
     \<lparr>statusCode = 200,
      body = stringify [(''status'', JStr ''Created entry in DDB''), (''contactId'', ContactId)]\<rparr>"

text \<open>
  Lines 140 to 194. Each \<open>await\<close> either throws, which leaves the \<open>try\<close> block with the
  error, or yields the response the next step reads.
\<close>

definition create_session ::
  "services \<Rightarrow> config \<Rightarrow> jsval \<Rightarrow> jsval \<Rightarrow> jsval \<Rightarrow> jsval \<Rightarrow> world \<Rightarrow> (js_error + result) \<times> world" where
  "create_session sv cfg firstMessage originatingNumber content previousContactId w =
     (case send sv StartChatContactCommand
             (startChatParams cfg firstMessage originatingNumber previousContactId) w of
        (Inl e, w1) \<Rightarrow> (Inl e, w1)
      | (Inr startChatResp, w1) \<Rightarrow>
     (let ContactId = own startChatResp ''ContactId'';
          ParticipantToken = own startChatResp ''ParticipantToken''
      in case send sv StartContactStreamingCommand (streamingParams cfg ContactId) w1 of
        (Inl e, w2) \<Rightarrow> (Inl e, w2)
      | (Inr streamingResult, w2) \<Rightarrow>
     (case send sv CreateParticipantConnectionCommand (connectionParams ParticipantToken) w2 of
        (Inl e, w3) \<Rightarrow> (Inl e, w3)
      | (Inr connectionResp, w3) \<Rightarrow>
     (case get_prop (own connectionResp ''ConnectionCredentials'') ''ConnectionToken'' of
        Inl e \<Rightarrow> (Inl e, w3)
      | Inr newToken \<Rightarrow>
     (case (if firstMessage = JStr ''0''
            then send sv SendMessageCommand (messageParams content newToken) w3
            else (Inr [], w3)) of
        (Inl e, w4) \<Rightarrow> (Inl e, w4)
      | (Inr msgResp, w4) \<Rightarrow>
     (case send sv PutItemCommand
             (putParams sv cfg w4 originatingNumber ContactId newToken) w4 of
        (Inl e, w5) \<Rightarrow> (Inl e, w5)
      | (Inr _, w5) \<Rightarrow> (Inr (created ContactId), w5)))))))"

subsection \<open>Looking the session up and reusing it (lines 74 to 108, 196 to 199)\<close>

definition dbParams :: "config \<Rightarrow> jsval \<Rightarrow> jsval" where
  "dbParams cfg originatingNumber =
     JObj [(''TableName'', DYNAMO_TABLE_NAME cfg),
           (''Key'', JObj [(''originatingNumber'', JObj [(''S'', originatingNumber)])])]"

definition resumed :: "jsobj \<Rightarrow> result" where
  "resumed sendResponse =
     \<lparr>statusCode = 200,
      body = stringify [(''status'', JStr ''Resumed''), (''messageId'', own sendResponse ''Id'')]\<rparr>"

text \<open>
  The body of the \<open>try\<close> block. \<open>previousContactId\<close> starts as \<open>null\<close> and is assigned
  only inside the branch that found a connection token. Reading \<open>Item.ContactId.S\<close>
  (line 90) is outside the inner \<open>try\<close>: if it throws, the error leaves the block. The
  inner \<open>try\<close> holds only the send; its \<open>catch\<close> swallows the error and falls through
  to the creation of a new session.
\<close>

definition try_block ::
  "services \<Rightarrow> config \<Rightarrow> jsval \<Rightarrow> jsval \<Rightarrow> jsval \<Rightarrow> world \<Rightarrow> (js_error + result) \<times> world" where
  "try_block sv cfg firstMessage originatingNumber content w =
     (case send sv GetItemCommand (dbParams cfg originatingNumber) w of
        (Inl e, w1) \<Rightarrow> (Inl e, w1)
      | (Inr dbResponse, w1) \<Rightarrow>
     (let Item = own dbResponse ''Item''
      in if truthy Item \<and> truthy (peek Item ''ConnectionToken'')
         then
           (let storedToken = peek (peek Item ''ConnectionToken'') ''S''
            in case get_prop (peek Item ''ContactId'') ''S'' of
                 Inl e \<Rightarrow> (Inl e, w1)
               | Inr previousContactId \<Rightarrow>
                   (case send sv SendMessageCommand (messageParams content storedToken) w1 of
                      (Inr sendResponse, w2) \<Rightarrow> (Inr (resumed sendResponse), w2)
                    | (Inl err, w2) \<Rightarrow>
                        create_session sv cfg firstMessage originatingNumber content
                          previousContactId w2))
         else create_session sv cfg firstMessage originatingNumber content JNull w1))"

definition fatal :: "js_error \<Rightarrow> result" where
  "fatal error = \<lparr>statusCode = 500, body = stringify [(''error'', JStr (message error))]\<rparr>"

text \<open>The \<open>try\<close> block with its \<open>catch\<close> (lines 196 to 199): the session resolver.\<close>

definition resolve ::
  "services \<Rightarrow> config \<Rightarrow> jsval \<Rightarrow> jsval \<Rightarrow> jsval \<Rightarrow> world \<Rightarrow> result \<times> world" where
  "resolve sv cfg firstMessage originatingNumber content w =
     (case try_block sv cfg firstMessage originatingNumber content w of
        (Inr r, w') \<Rightarrow> (r, w')
      | (Inl error, w') \<Rightarrow> (fatal error, w'))"

subsection \<open>The handler\<close>

definition handler :: "services \<Rightarrow> config \<Rightarrow> jsval \<Rightarrow> world \<Rightarrow> outcome \<times> world" where
  "handler sv cfg event w =
     (case read_request sv event of
        Inl e \<Rightarrow> (Thrown e, w)
      | Inr (Reject r) \<Rightarrow> (Returned r, w)
      | Inr (Accept fm originatingNumber content) \<Rightarrow>
          (let firstMessage = (if \<not> truthy fm then JStr ''0'' else fm)
           in case resolve sv cfg firstMessage originatingNumber content w of
                (r, w') \<Rightarrow> (Returned r, w')))"

subsection \<open>Observing an invocation\<close>

text \<open>The commands an invocation sent: the part of the log added between two worlds.\<close>

definition issued :: "world \<Rightarrow> world \<Rightarrow> (command \<times> jsval \<times> (js_error + jsobj)) list" where
  "issued w w' = drop (length (calls w)) (calls w')"

text \<open>The response logged for a command (no properties when the command failed).\<close>

definition response :: "command \<times> jsval \<times> (js_error + jsobj) \<Rightarrow> jsobj" where
  "response entry = (case snd (snd entry) of Inr r \<Rightarrow> r | Inl _ \<Rightarrow> [])"

text \<open>The response to the first command of a kind in a log.\<close>

definition answer_to ::
  "command \<Rightarrow> (command \<times> jsval \<times> (js_error + jsobj)) list \<Rightarrow> jsobj" where
  "answer_to c tr = (case filter (\<lambda>entry. fst entry = c) tr of
                       [] \<Rightarrow> []
                     | entry # _ \<Rightarrow> response entry)"

text \<open>What the caller finds under a key after parsing the body of a result.\<close>

definition body_field :: "result \<Rightarrow> string \<Rightarrow> jsval" where
  "body_field r k = (case body r of Json fs \<Rightarrow> own fs k | Text _ \<Rightarrow> JUndefined)"

text \<open>
  An item that holds a session: its \<open>ContactId\<close> and \<open>ConnectionToken\<close> attributes are
  the string attributes the handler writes at lines 188 and 189.
\<close>

definition holds_session :: "jsval \<Rightarrow> string \<Rightarrow> string \<Rightarrow> bool" where
  "holds_session item cid tok \<longleftrightarrow>
     peek item ''ContactId'' = JObj [(''S'', JStr cid)] \<and>
     peek item ''ConnectionToken'' = JObj [(''S'', JStr tok)]"

definition rehydration :: "jsval \<Rightarrow> jsval" where
  "rehydration cid =
     JObj [(''RehydrationType'', JStr ''FROM_SEGMENT''), (''SourceContactId'', cid)]"

definition nullish :: "jsval \<Rightarrow> bool" where
  "nullish v \<longleftrightarrow> v = JUndefined \<or> v = JNull"

subsection \<open>A concrete deployment\<close>

text \<open>
  The scenarios of the specification, for the number +640000001. The services below
  accept a send through the tokens \<open>tok-live\<close> and \<open>tok-new\<close> and refuse any other
  token as expired; the commands listed in \<open>broken\<close> fail. The \<open>JSON.parse\<close> of this
  deployment knows four texts, the message of the SMS gateway, a request of the agent
  flow, the empty object and \<open>null\<close>, and rejects every other text.
\<close>

definition expired :: js_error where
  "expired = JsError ''AccessDeniedException'' ''Access denied''"

definition unavailable :: js_error where
  "unavailable = JsError ''ServiceUnavailableException'' ''Service unavailable''"

definition syntax_error :: js_error where
  "syntax_error = JsError ''SyntaxError'' ''Unexpected end of JSON input''"

definition customer :: jsval where
  "customer = JStr ''+640000001''"

definition gateway_text :: string where
  \<open>gateway_text = ''{"source":"+640000001","destination":"4040","content":"Hi"}''\<close>

definition gateway_message :: jsval where
  "gateway_message =
     JObj [(''source'', customer), (''destination'', JStr ''4040''), (''content'', JStr ''Hi'')]"

definition agent_text :: string where
  \<open>agent_text = ''{"firstMessage":"1","originatingNumber":"+640000001","content":"Hi"}''\<close>

definition agent_message :: jsval where
  "agent_message =
     JObj [(''firstMessage'', JStr ''1''), (''originatingNumber'', customer),
           (''content'', JStr ''Hi'')]"

definition deployment :: "command list \<Rightarrow> services" where
  "deployment broken =
     \<lparr>json_parse = (\<lambda>v. if v = JStr gateway_text then Inr gateway_message
                        else if v = JStr agent_text then Inr agent_message
                        else if v = JStr ''{}'' then Inr (JObj [])
                        else if v = JStr ''null'' then Inr JNull
                        else Inl syntax_error),
      parse_int = (\<lambda>v. None),
      date_now = (\<lambda>w. 1762165200000),
      fault = (\<lambda>w c p. if c \<in> set broken then Some unavailable else None),
      respond = (\<lambda>w c p.
        if c \<in> set broken then Inl unavailable
        else (case c of
                SendMessageCommand \<Rightarrow>
                  if peek p ''ConnectionToken'' = JStr ''tok-live''
                     \<or> peek p ''ConnectionToken'' = JStr ''tok-new''
                  then Inr [(''Id'', JStr ''m-7'')] else Inl expired
              | StartChatContactCommand \<Rightarrow>
                  Inr [(''ContactId'', JStr ''c-2''), (''ParticipantToken'', JStr ''p-2'')]
              | StartContactStreamingCommand \<Rightarrow> Inr [(''StreamingId'', JStr ''s-2'')]
              | CreateParticipantConnectionCommand \<Rightarrow>
                  Inr [(''ConnectionCredentials'', JObj [(''ConnectionToken'', JStr ''tok-new'')])]
              | _ \<Rightarrow> Inr []))\<rparr>"

definition settings :: config where
  "settings =
     \<lparr>DYNAMO_TABLE_NAME = JStr ''sessions'',
      CONNECT_INSTANCE_ID = JStr ''instance-1'',
      CONTACT_FLOW_ID = JStr ''flow-1'',
      SNS_STREAMING_ARN = JStr ''arn:aws:sns:ap-southeast-2:1:stream'',
      SESSION_TTL_HOURS = JUndefined\<rparr>"

definition stored :: "jsval \<Rightarrow> world" where
  "stored item = \<lparr>table = [customer \<mapsto> item], calls = []\<rparr>"

definition live_session :: jsval where
  "live_session = session_item customer (JStr ''c-1'') (JStr ''tok-live'') ''1762000000''"

definition stale_session :: jsval where
  "stale_session = session_item customer (JStr ''c-1'') (JStr ''tok-old'') ''1762000000''"

text \<open>An item with a contact id and no connection token.\<close>

definition tokenless_item :: jsval where
  "tokenless_item =
     JObj [(''originatingNumber'', JObj [(''S'', customer)]),
           (''ContactId'', JObj [(''S'', JStr ''c-1'')])]"

text \<open>
  Scenario B (the stored token is live), scenario B run once more, scenario C (the
  stored token is stale), scenario C while contact creation is down, and an
  agent-initiated contact for a number whose item has no token.
\<close>

definition live_run :: "result \<times> world" where
  "live_run = resolve (deployment []) settings (JStr ''0'') customer (JStr ''Still here'')
                (stored live_session)"

definition live_rerun :: "result \<times> world" where
  "live_rerun = resolve (deployment []) settings (JStr ''0'') customer (JStr ''Still here'')
                  (snd live_run)"

definition stale_run :: "result \<times> world" where
  "stale_run = resolve (deployment []) settings (JStr ''0'') customer (JStr ''Hi'')
                 (stored stale_session)"

definition broken_run :: "result \<times> world" where
  "broken_run = resolve (deployment [StartChatContactCommand]) settings (JStr ''0'') customer
                  (JStr ''Hi'') (stored stale_session)"

definition agent_run :: "result \<times> world" where
  "agent_run = resolve (deployment []) settings (JStr ''1'') customer (JStr ''Hi'')
                 (stored tokenless_item)"

text \<open>
  Events: the gateway's message; a body that is not JSON, on an unknown path and on a
  known one; an empty object and \<open>null\<close> as the body.
\<close>

definition gateway_event :: jsval where
  "gateway_event = JObj [(''rawPath'', JStr ''/modica''), (''body'', JStr gateway_text)]"

definition live_invocation :: "outcome \<times> world" where
  "live_invocation = handler (deployment []) settings gateway_event (stored live_session)"

definition stale_invocation :: "outcome \<times> world" where
  "stale_invocation = handler (deployment []) settings gateway_event (stored stale_session)"

definition agent_event :: jsval where
  "agent_event = JObj [(''rawPath'', JStr ''/salesforce''), (''body'', JStr agent_text)]"

text \<open>A number without a record: the agent flow, and the gateway's message while streaming is down.\<close>

definition no_session :: world where
  "no_session = \<lparr>table = Map.empty, calls = []\<rparr>"

definition agent_invocation :: "outcome \<times> world" where
  "agent_invocation = handler (deployment []) settings agent_event no_session"

definition streaming_down_invocation :: "outcome \<times> world" where
  "streaming_down_invocation =
     handler (deployment [StartContactStreamingCommand]) settings gateway_event no_session"

definition truncated_event :: jsval where
  "truncated_event = JObj [(''rawPath'', JStr ''/status''), (''body'', JStr ''{'')]"

definition empty_event :: jsval where
  "empty_event = JObj [(''rawPath'', JStr ''/salesforce''), (''body'', JStr ''{}'')]"

definition null_event :: jsval where
  "null_event = JObj [(''rawPath'', JStr ''/salesforce''), (''body'', JStr ''null'')]"

definition garbled_event :: jsval where
  "garbled_event = JObj [(''rawPath'', JStr ''/modica''), (''body'', JStr ''hello'')]"

section \<open>Properties of the handler\<close>

subsection \<open>Sending a command\<close>

text \<open>
  A command is logged with what came back, and only a \<open>PutItemCommand\<close> that succeeds
  changes the table.
\<close>

lemma send_eq:
  "send sv c params w = (out, w') \<longleftrightarrow>
     out = answer sv c params w \<and>
     calls w' = calls w @ [(c, params, out)] \<and>
     table w' = (case (c, out) of
                   (PutItemCommand, Inr _) \<Rightarrow>
                     (table w)(peek (peek (peek params ''Item'') ''originatingNumber'') ''S''
                                 \<mapsto> peek params ''Item'')
                 | _ \<Rightarrow> table w)"
  by (cases w') (auto simp: send_def Let_def)

lemma send_other:
  assumes "send sv c params w = (out, w')" and "c \<noteq> PutItemCommand"
  shows "calls w' = calls w @ [(c, params, out)]" and "table w' = table w"
  using assms by (cases c; simp add: send_eq)+

lemma send_put:
  assumes "send sv PutItemCommand (JObj [(''TableName'', t), (''Item'', session_item n c k x)]) w = (out, w')"
  shows "calls w' = calls w @ [(PutItemCommand, JObj [(''TableName'', t), (''Item'', session_item n c k x)], out)]"
    and "table w' = (case out of Inr _ \<Rightarrow> (table w)(n \<mapsto> session_item n c k x) | Inl _ \<Rightarrow> table w)"
  using assms by (auto simp: send_eq own_def session_item_def split: sum.splits)

lemma put_answer: "answer sv PutItemCommand p w = Inr r \<Longrightarrow> r = []"
  by (auto simp: answer_def split: option.splits)


subsection \<open>The runs of the handler\<close>

text \<open>
  Every run of \<open>create_session\<close> is one of nine: it stops at the first command that
  fails (or at the read of the connection token), or it runs to the end, with or without
  the send of the first message. Each case gives the result, the table and the log.
\<close>

lemma create_session_cases [consumes 1, case_names chat streaming connection credentials
    message put_sent put_unsent done_sent done_unsent]:
  assumes run: "create_session sv cfg fm n content prev w = (res, w')"
  obtains
    e where "res = Inl e" "table w' = table w"
      "calls w' = calls w @ [(StartChatContactCommand, startChatParams cfg fm n prev, Inl e)]"
  | e chat where "res = Inl e" "table w' = table w"
      "calls w' = calls w @
         [(StartChatContactCommand, startChatParams cfg fm n prev, Inr chat),
          (StartContactStreamingCommand, streamingParams cfg (own chat ''ContactId''), Inl e)]"
  | e chat str where "res = Inl e" "table w' = table w"
      "calls w' = calls w @
         [(StartChatContactCommand, startChatParams cfg fm n prev, Inr chat),
          (StartContactStreamingCommand, streamingParams cfg (own chat ''ContactId''), Inr str),
          (CreateParticipantConnectionCommand,
             connectionParams (own chat ''ParticipantToken''), Inl e)]"
  | e chat str conn where "res = Inl e" "table w' = table w"
      "get_prop (own conn ''ConnectionCredentials'') ''ConnectionToken'' = Inl e"
      "calls w' = calls w @
         [(StartChatContactCommand, startChatParams cfg fm n prev, Inr chat),
          (StartContactStreamingCommand, streamingParams cfg (own chat ''ContactId''), Inr str),
          (CreateParticipantConnectionCommand,
             connectionParams (own chat ''ParticipantToken''), Inr conn)]"
  | e chat str conn tok where "res = Inl e" "table w' = table w" "fm = JStr ''0''"
      "get_prop (own conn ''ConnectionCredentials'') ''ConnectionToken'' = Inr tok"
      "calls w' = calls w @
         [(StartChatContactCommand, startChatParams cfg fm n prev, Inr chat),
          (StartContactStreamingCommand, streamingParams cfg (own chat ''ContactId''), Inr str),
          (CreateParticipantConnectionCommand,
             connectionParams (own chat ''ParticipantToken''), Inr conn),
          (SendMessageCommand, messageParams content tok, Inl e)]"
  | e chat str conn tok msg x where "res = Inl e" "table w' = table w" "fm = JStr ''0''"
      "get_prop (own conn ''ConnectionCredentials'') ''ConnectionToken'' = Inr tok"
      "calls w' = calls w @
         [(StartChatContactCommand, startChatParams cfg fm n prev, Inr chat),
          (StartContactStreamingCommand, streamingParams cfg (own chat ''ContactId''), Inr str),
          (CreateParticipantConnectionCommand,
             connectionParams (own chat ''ParticipantToken''), Inr conn),
          (SendMessageCommand, messageParams content tok, Inr msg),
          (PutItemCommand,
             JObj [(''TableName'', DYNAMO_TABLE_NAME cfg),
                   (''Item'', session_item n (own chat ''ContactId'') tok x)], Inl e)]"
  | e chat str conn tok x where "res = Inl e" "table w' = table w" "fm \<noteq> JStr ''0''"
      "get_prop (own conn ''ConnectionCredentials'') ''ConnectionToken'' = Inr tok"
      "calls w' = calls w @
         [(StartChatContactCommand, startChatParams cfg fm n prev, Inr chat),
          (StartContactStreamingCommand, streamingParams cfg (own chat ''ContactId''), Inr str),
          (CreateParticipantConnectionCommand,
             connectionParams (own chat ''ParticipantToken''), Inr conn),
          (PutItemCommand,
             JObj [(''TableName'', DYNAMO_TABLE_NAME cfg),
                   (''Item'', session_item n (own chat ''ContactId'') tok x)], Inl e)]"
  | chat str conn tok msg x where "res = Inr (created (own chat ''ContactId''))"
      "table w' = (table w)(n \<mapsto> session_item n (own chat ''ContactId'') tok x)"
      "x = toString (expirationTime sv cfg \<lparr>table = table w, calls = calls w @
         [(StartChatContactCommand, startChatParams cfg fm n prev, Inr chat),
          (StartContactStreamingCommand, streamingParams cfg (own chat ''ContactId''), Inr str),
          (CreateParticipantConnectionCommand,
             connectionParams (own chat ''ParticipantToken''), Inr conn),
          (SendMessageCommand, messageParams content tok, Inr msg)]\<rparr>)"
      "fm = JStr ''0''"
      "get_prop (own conn ''ConnectionCredentials'') ''ConnectionToken'' = Inr tok"
      "calls w' = calls w @
         [(StartChatContactCommand, startChatParams cfg fm n prev, Inr chat),
          (StartContactStreamingCommand, streamingParams cfg (own chat ''ContactId''), Inr str),
          (CreateParticipantConnectionCommand,
             connectionParams (own chat ''ParticipantToken''), Inr conn),
          (SendMessageCommand, messageParams content tok, Inr msg),
          (PutItemCommand,
             JObj [(''TableName'', DYNAMO_TABLE_NAME cfg),
                   (''Item'', session_item n (own chat ''ContactId'') tok x)], Inr [])]"
  | chat str conn tok x where "res = Inr (created (own chat ''ContactId''))"
      "table w' = (table w)(n \<mapsto> session_item n (own chat ''ContactId'') tok x)"
      "x = toString (expirationTime sv cfg \<lparr>table = table w, calls = calls w @
         [(StartChatContactCommand, startChatParams cfg fm n prev, Inr chat),
          (StartContactStreamingCommand, streamingParams cfg (own chat ''ContactId''), Inr str),
          (CreateParticipantConnectionCommand,
             connectionParams (own chat ''ParticipantToken''), Inr conn)]\<rparr>)"
      "fm \<noteq> JStr ''0''"
      "get_prop (own conn ''ConnectionCredentials'') ''ConnectionToken'' = Inr tok"
      "calls w' = calls w @
         [(StartChatContactCommand, startChatParams cfg fm n prev, Inr chat),
          (StartContactStreamingCommand, streamingParams cfg (own chat ''ContactId''), Inr str),
          (CreateParticipantConnectionCommand,
             connectionParams (own chat ''ParticipantToken''), Inr conn),
          (PutItemCommand,
             JObj [(''TableName'', DYNAMO_TABLE_NAME cfg),
                   (''Item'', session_item n (own chat ''ContactId'') tok x)], Inr [])]"
proof -
  obtain o1 w1 where s1: "send sv StartChatContactCommand (startChatParams cfg fm n prev) w = (o1, w1)"
    by (cases "send sv StartChatContactCommand (startChatParams cfg fm n prev) w")
  note f1 = send_other [OF s1]
  show thesis
  proof (cases o1)
    case (Inl e)
    then have "res = Inl e \<and> w' = w1"
      using run s1 by (simp add: create_session_def)
    with f1 Inl show thesis
      by (intro that(1) [where e = e]) simp_all
  next
    case chat: (Inr chat)
    obtain o2 w2 where s2: "send sv StartContactStreamingCommand
        (streamingParams cfg (own chat ''ContactId'')) w1 = (o2, w2)"
      by (cases "send sv StartContactStreamingCommand (streamingParams cfg (own chat ''ContactId'')) w1")
    note f2 = send_other [OF s2]
    show thesis
    proof (cases o2)
      case (Inl e)
      then have "res = Inl e \<and> w' = w2"
        using run s1 s2 chat by (simp add: create_session_def)
      with f1 f2 chat Inl show thesis
        by (intro that(2) [where e = e and chat = chat]) simp_all
    next
      case str: (Inr str)
      obtain o3 w3 where s3: "send sv CreateParticipantConnectionCommand
          (connectionParams (own chat ''ParticipantToken'')) w2 = (o3, w3)"
        by (cases "send sv CreateParticipantConnectionCommand (connectionParams (own chat ''ParticipantToken'')) w2")
      note f3 = send_other [OF s3]
      show thesis
      proof (cases o3)
        case (Inl e)
        then have "res = Inl e \<and> w' = w3"
          using run s1 s2 s3 chat str by (simp add: create_session_def)
        with f1 f2 f3 chat str Inl show thesis
          by (intro that(3) [where e = e and chat = chat and str = str]) simp_all
      next
        case conn: (Inr conn)
        show thesis
        proof (cases "get_prop (own conn ''ConnectionCredentials'') ''ConnectionToken''")
          case (Inl e)
          then have "res = Inl e \<and> w' = w3"
            using run s1 s2 s3 chat str conn by (simp add: create_session_def)
          with f1 f2 f3 chat str conn Inl show thesis
            by (intro that(4) [where e = e and chat = chat and str = str and conn = conn]) simp_all
        next
          case tok: (Inr tok)
          show thesis
          proof (cases "fm = JStr ''0''")
            case True
            obtain o4 w4 where s4: "send sv SendMessageCommand (messageParams content tok) w3 = (o4, w4)"
              by (cases "send sv SendMessageCommand (messageParams content tok) w3")
            note f4 = send_other [OF s4]
            show thesis
            proof (cases o4)
              case (Inl e)
              then have "res = Inl e \<and> w' = w4"
                using run s1 s2 s3 s4 chat str conn tok True by (simp add: create_session_def)
              with f1 f2 f3 f4 chat str conn tok True Inl show thesis
                by (intro that(5) [where e = e and chat = chat and str = str and conn = conn
                      and tok = tok]) simp_all
            next
              case msg: (Inr msg)
              obtain o5 w5 where s5: "send sv PutItemCommand
                  (putParams sv cfg w4 n (own chat ''ContactId'') tok) w4 = (o5, w5)"
                by (cases "send sv PutItemCommand (putParams sv cfg w4 n (own chat ''ContactId'') tok) w4")
              note f5 = send_put [OF s5 [unfolded putParams_def]]
              show thesis
              proof (cases o5)
                case (Inl e)
                then have "res = Inl e \<and> w' = w5"
                  using run s1 s2 s3 s4 s5 chat str conn tok True msg
                  by (simp add: create_session_def)
                with f1 f2 f3 f4 f5 chat str conn tok True msg Inl show thesis
                  by (intro that(6) [where e = e and chat = chat and str = str and conn = conn
                        and tok = tok and msg = msg
                        and x = "toString (expirationTime sv cfg w4)"]) simp_all
              next
                case (Inr r)
                then have "r = []"
                  using s5 put_answer by (auto simp: send_eq)
                moreover have "res = Inr (created (own chat ''ContactId'')) \<and> w' = w5"
                  using run s1 s2 s3 s4 s5 chat str conn tok True msg Inr
                  by (simp add: create_session_def)
                moreover have before: "w4 = \<lparr>table = table w, calls = calls w @
                    [(StartChatContactCommand, startChatParams cfg fm n prev, Inr chat),
                     (StartContactStreamingCommand,
                        streamingParams cfg (own chat ''ContactId''), Inr str),
                     (CreateParticipantConnectionCommand,
                        connectionParams (own chat ''ParticipantToken''), Inr conn),
                     (SendMessageCommand, messageParams content tok, Inr msg)]\<rparr>"
                  using f1 f2 f3 f4 chat str conn msg by (cases w4) simp
                moreover have "toString (expirationTime sv cfg w4) =
                  toString (expirationTime sv cfg \<lparr>table = table w, calls = calls w @
                    [(StartChatContactCommand, startChatParams cfg fm n prev, Inr chat),
                     (StartContactStreamingCommand,
                        streamingParams cfg (own chat ''ContactId''), Inr str),
                     (CreateParticipantConnectionCommand,
                        connectionParams (own chat ''ParticipantToken''), Inr conn),
                     (SendMessageCommand, messageParams content tok, Inr msg)]\<rparr>)"
                  by (subst before) (rule refl)
                ultimately show thesis
                  using f1 f2 f3 f4 f5 chat str conn tok True msg Inr
                  by (intro that(8) [where chat = chat and str = str and conn = conn
                        and tok = tok and msg = msg
                        and x = "toString (expirationTime sv cfg w4)"]) simp_all
              qed
            qed
          next
            case False
            obtain o5 w5 where s5: "send sv PutItemCommand
                (putParams sv cfg w3 n (own chat ''ContactId'') tok) w3 = (o5, w5)"
              by (cases "send sv PutItemCommand (putParams sv cfg w3 n (own chat ''ContactId'') tok) w3")
            note f5 = send_put [OF s5 [unfolded putParams_def]]
            show thesis
            proof (cases o5)
              case (Inl e)
              then have "res = Inl e \<and> w' = w5"
                using run s1 s2 s3 s5 chat str conn tok False
                by (simp add: create_session_def)
              with f1 f2 f3 f5 chat str conn tok False Inl show thesis
                by (intro that(7) [where e = e and chat = chat and str = str and conn = conn
                      and tok = tok and x = "toString (expirationTime sv cfg w3)"]) simp_all
            next
              case (Inr r)
              then have "r = []"
                using s5 put_answer by (auto simp: send_eq)
              moreover have "res = Inr (created (own chat ''ContactId'')) \<and> w' = w5"
                using run s1 s2 s3 s5 chat str conn tok False Inr
                by (simp add: create_session_def)
              moreover have before: "w3 = \<lparr>table = table w, calls = calls w @
                  [(StartChatContactCommand, startChatParams cfg fm n prev, Inr chat),
                   (StartContactStreamingCommand,
                      streamingParams cfg (own chat ''ContactId''), Inr str),
                   (CreateParticipantConnectionCommand,
                      connectionParams (own chat ''ParticipantToken''), Inr conn)]\<rparr>"
                using f1 f2 f3 chat str conn by (cases w3) simp
              moreover have "toString (expirationTime sv cfg w3) =
                toString (expirationTime sv cfg \<lparr>table = table w, calls = calls w @
                  [(StartChatContactCommand, startChatParams cfg fm n prev, Inr chat),
                   (StartContactStreamingCommand,
                      streamingParams cfg (own chat ''ContactId''), Inr str),
                   (CreateParticipantConnectionCommand,
                      connectionParams (own chat ''ParticipantToken''), Inr conn)]\<rparr>)"
                by (subst before) (rule refl)
              ultimately show thesis
                using f1 f2 f3 f5 chat str conn tok False Inr
                by (intro that(9) [where chat = chat and str = str and conn = conn
                      and tok = tok and x = "toString (expirationTime sv cfg w3)"]) simp_all
            qed
          qed
        qed
      qed
    qed
  qed
qed


text \<open>
  Every run of the resolver is one of five: the lookup fails; the stored contact id
  cannot be read; the stored connection is reused; the reuse fails and a session is
  created; no connection token is stored and a session is created.
\<close>

lemma resolve_cases [consumes 1, case_names lookup unreadable resumed fallback fresh]:
  assumes run: "resolve sv cfg fm n content w = (r, w')"
  obtains
    e where "send sv GetItemCommand (dbParams cfg n) w = (Inl e, w')"
      "r = fatal e" "table w' = table w"
      "calls w' = calls w @ [(GetItemCommand, dbParams cfg n, Inl e)]"
  | e db where "send sv GetItemCommand (dbParams cfg n) w = (Inr db, w')"
      "truthy (own db ''Item'')" "truthy (peek (own db ''Item'') ''ConnectionToken'')"
      "get_prop (peek (own db ''Item'') ''ContactId'') ''S'' = Inl e"
      "r = fatal e" "table w' = table w"
      "calls w' = calls w @ [(GetItemCommand, dbParams cfg n, Inr db)]"
  | db w1 prev msg where "send sv GetItemCommand (dbParams cfg n) w = (Inr db, w1)"
      "truthy (own db ''Item'')" "truthy (peek (own db ''Item'') ''ConnectionToken'')"
      "get_prop (peek (own db ''Item'') ''ContactId'') ''S'' = Inr prev"
      "send sv SendMessageCommand
         (messageParams content (peek (peek (own db ''Item'') ''ConnectionToken'') ''S'')) w1
       = (Inr msg, w')"
      "r = resumed msg" "table w' = table w"
      "calls w' = calls w @
         [(GetItemCommand, dbParams cfg n, Inr db),
          (SendMessageCommand,
             messageParams content (peek (peek (own db ''Item'') ''ConnectionToken'') ''S''),
             Inr msg)]"
  | db w1 prev err w2 res where "send sv GetItemCommand (dbParams cfg n) w = (Inr db, w1)"
      "truthy (own db ''Item'')" "truthy (peek (own db ''Item'') ''ConnectionToken'')"
      "get_prop (peek (own db ''Item'') ''ContactId'') ''S'' = Inr prev"
      "send sv SendMessageCommand
         (messageParams content (peek (peek (own db ''Item'') ''ConnectionToken'') ''S'')) w1
       = (Inl err, w2)"
      "table w2 = table w"
      "calls w2 = calls w @
         [(GetItemCommand, dbParams cfg n, Inr db),
          (SendMessageCommand,
             messageParams content (peek (peek (own db ''Item'') ''ConnectionToken'') ''S''),
             Inl err)]"
      "create_session sv cfg fm n content prev w2 = (res, w')"
      "r = (case res of Inr x \<Rightarrow> x | Inl e \<Rightarrow> fatal e)"
  | db w1 res where "send sv GetItemCommand (dbParams cfg n) w = (Inr db, w1)"
      "\<not> (truthy (own db ''Item'') \<and> truthy (peek (own db ''Item'') ''ConnectionToken''))"
      "table w1 = table w"
      "calls w1 = calls w @ [(GetItemCommand, dbParams cfg n, Inr db)]"
      "create_session sv cfg fm n content JNull w1 = (res, w')"
      "r = (case res of Inr x \<Rightarrow> x | Inl e \<Rightarrow> fatal e)"
proof -
  obtain o1 w1 where s1: "send sv GetItemCommand (dbParams cfg n) w = (o1, w1)"
    by (cases "send sv GetItemCommand (dbParams cfg n) w")
  note f1 = send_other [OF s1]
  show thesis
  proof (cases o1)
    case (Inl e)
    then have "r = fatal e \<and> w' = w1"
      using run s1 by (simp add: resolve_def try_block_def)
    with s1 f1 Inl show thesis
      by (intro that(1) [where e = e]) simp_all
  next
    case db: (Inr db)
    let ?item = "own db ''Item''"
    let ?tok = "peek (peek ?item ''ConnectionToken'') ''S''"
    show thesis
    proof (cases "truthy ?item \<and> truthy (peek ?item ''ConnectionToken'')")
      case False
      obtain res w'' where c: "create_session sv cfg fm n content JNull w1 = (res, w'')"
        by (cases "create_session sv cfg fm n content JNull w1")
      then have "r = (case res of Inr x \<Rightarrow> x | Inl e \<Rightarrow> fatal e) \<and> w' = w''"
        using run s1 db False by (auto simp: resolve_def try_block_def split: sum.splits)
      with s1 f1 db False c show thesis
        by (intro that(5) [where db = db and ?w1.0 = w1 and res = res]) simp_all
    next
      case True
      show thesis
      proof (cases "get_prop (peek ?item ''ContactId'') ''S''")
        case (Inl e)
        then have "r = fatal e \<and> w' = w1"
          using run s1 db True by (simp add: resolve_def try_block_def)
        with s1 f1 db True Inl show thesis
          by (intro that(2) [where e = e and db = db]) simp_all
      next
        case prev: (Inr prev)
        obtain o2 w2 where s2: "send sv SendMessageCommand (messageParams content ?tok) w1 = (o2, w2)"
          by (cases "send sv SendMessageCommand (messageParams content ?tok) w1")
        note f2 = send_other [OF s2]
        show thesis
        proof (cases o2)
          case (Inr msg)
          then have "r = resumed msg \<and> w' = w2"
            using run s1 s2 db True prev by (simp add: resolve_def try_block_def)
          with s1 s2 f1 f2 db True prev Inr show thesis
            by (intro that(3) [where db = db and ?w1.0 = w1 and prev = prev and msg = msg])
              simp_all
        next
          case (Inl err)
          obtain res w'' where c: "create_session sv cfg fm n content prev w2 = (res, w'')"
            by (cases "create_session sv cfg fm n content prev w2")
          then have "r = (case res of Inr x \<Rightarrow> x | Inl e \<Rightarrow> fatal e) \<and> w' = w''"
            using run s1 s2 db True prev Inl
            by (auto simp: resolve_def try_block_def split: sum.splits)
          with s1 s2 f1 f2 db True prev Inl c show thesis
            by (intro that(4) [where db = db and ?w1.0 = w1 and prev = prev and err = err
                  and ?w2.0 = w2 and res = res]) simp_all
        qed
      qed
    qed
  qed
qed

lemma issued_append: "calls w' = calls w @ tr \<Longrightarrow> issued w w' = tr"
  by (simp add: issued_def)

lemma holds_session_reads:
  assumes "holds_session item cid tok"
  shows "truthy item" and "truthy (peek item ''ConnectionToken'')"
    and "peek (peek item ''ConnectionToken'') ''S'' = JStr tok"
    and "get_prop (peek item ''ContactId'') ''S'' = Inr (JStr cid)"
  using assms by (cases item; simp add: holds_session_def own_def)+

lemmas deployment_simps =
  deployment_def settings_def customer_def stored_def live_session_def stale_session_def
  tokenless_item_def session_item_def send_def answer_def dbParams_def messageParams_def
  own_def Let_def expired_def unavailable_def

text \<open>Every run of the handler: an uncaught error, a rejection, or a run of the resolver.\<close>

lemma handler_cases [consumes 1, case_names thrown rejected accepted]:
  assumes run: "handler sv cfg event w = (out, w')"
  obtains
    e where "read_request sv event = Inl e" "out = Thrown e" "w' = w"
  | res where "read_request sv event = Inr (Reject res)" "out = Returned res" "w' = w"
  | fm n content r where "read_request sv event = Inr (Accept fm n content)"
      "resolve sv cfg (if \<not> truthy fm then JStr ''0'' else fm) n content w = (r, w')"
      "out = Returned r"
proof (cases "read_request sv event")
  case (Inl e)
  with run that(1) show thesis by (simp add: handler_def)
next
  case (Inr req)
  show thesis
  proof (cases req)
    case (Reject res)
    with run Inr that(2) show thesis by (simp add: handler_def)
  next
    case (Accept fm n content)
    obtain r v where "resolve sv cfg (if \<not> truthy fm then JStr ''0'' else fm) n content w = (r, v)"
      by (cases "resolve sv cfg (if \<not> truthy fm then JStr ''0'' else fm) n content w")
    with run Inr Accept that(3) [where fm = fm and n = n and content = content and r = r]
    show thesis by (simp add: handler_def)
  qed
qed

lemma read_request_rejects: "read_request sv event = Inr (Reject res) \<Longrightarrow> res = missing_data"
  by (auto simp: read_request_def split: sum.splits if_splits)

lemma request_flag:
  assumes "read_request sv event = Inr (Accept fm n content)"
  shows "(get_prop event ''rawPath'' = Inr (JStr ''/modica'') \<longrightarrow> fm = JUndefined)
       \<and> (get_prop event ''rawPath'' = Inr (JStr ''/salesforce'') \<longrightarrow> truthy fm)"
  using assms by (auto simp: read_request_def split: sum.splits if_splits)

subsection \<open>Reading the log and the results\<close>

lemma get_prop_peek: "get_prop v k = Inr x \<Longrightarrow> peek v k = x"
  by (cases v) auto

lemma at_index: "i < length tr \<Longrightarrow> tr ! i = y \<Longrightarrow> (i, y) \<in> set (enumerate 0 tr)"
  by (simp add: in_set_enumerate_eq)

lemma persistent_chat:
  "peek (startChatParams cfg fm n prev) ''PersistentChat'' =
     (if truthy prev then rehydration prev else JUndefined)"
  by (simp add: startChatParams_def rehydration_def own_def)

lemmas log_simps = issued_append answer_to_def response_def

lemma result_codes:
  "statusCode (fatal e) = 500" "statusCode (created c) = 200" "statusCode (resumed m) = 200"
  by (simp_all add: fatal_def created_def resumed_def)

lemma resumed_shape:
  "statusCode (resumed s) = 200" "body_field (resumed s) ''status'' = JStr ''Resumed''"
  by (simp_all add: resumed_def body_field_def stringify_def own_def)

lemma lookup_reads_table:
  assumes "fault sv w GetItemCommand (dbParams cfg n) = None" and "table w n = Some item"
  shows "fst (send sv GetItemCommand (dbParams cfg n) w) = Inr [(''Item'', item)]"
  using assms by (simp add: send_def answer_def dbParams_def own_def Let_def)

lemma send_message_answer:
  "fst (send sv SendMessageCommand p v) = respond sv v SendMessageCommand p"
  by (simp add: send_def answer_def Let_def)

subsection \<open>The scenarios, run\<close>

text \<open>The concrete runs, evaluated: the result, the table and the log of each.\<close>

lemmas run_simps =
  resolve_def try_block_def create_session_def startChatParams_def streamingParams_def
  connectionParams_def putParams_def expirationTime_def deployment_simps

lemma live_run_eq:
  "live_run =
     (resumed [(''Id'', JStr ''m-7'')],
      \<lparr>table = [customer \<mapsto> live_session],
       calls = [(GetItemCommand, dbParams settings customer, Inr [(''Item'', live_session)]),
                (SendMessageCommand, messageParams (JStr ''Still here'') (JStr ''tok-live''),
                   Inr [(''Id'', JStr ''m-7'')])]\<rparr>)"
  by (simp add: live_run_def run_simps)

lemma stale_run_eq:
  "stale_run =
     (created (JStr ''c-2''),
      \<lparr>table = [customer \<mapsto> session_item customer (JStr ''c-2'') (JStr ''tok-new'')
                              (toString 1762251600)],
       calls = [(GetItemCommand, dbParams settings customer, Inr [(''Item'', stale_session)]),
                (SendMessageCommand, messageParams (JStr ''Hi'') (JStr ''tok-old''), Inl expired),
                (StartChatContactCommand,
                   startChatParams settings (JStr ''0'') customer (JStr ''c-1''),
                   Inr [(''ContactId'', JStr ''c-2''), (''ParticipantToken'', JStr ''p-2'')]),
                (StartContactStreamingCommand, streamingParams settings (JStr ''c-2''),
                   Inr [(''StreamingId'', JStr ''s-2'')]),
                (CreateParticipantConnectionCommand, connectionParams (JStr ''p-2''),
                   Inr [(''ConnectionCredentials'',
                           JObj [(''ConnectionToken'', JStr ''tok-new'')])]),
                (SendMessageCommand, messageParams (JStr ''Hi'') (JStr ''tok-new''),
                   Inr [(''Id'', JStr ''m-7'')]),
                (PutItemCommand,
                   JObj [(''TableName'', JStr ''sessions''),
                         (''Item'', session_item customer (JStr ''c-2'') (JStr ''tok-new'')
                                      (toString 1762251600))],
                   Inr [])]\<rparr>)"
  by (simp add: stale_run_def run_simps)

lemma live_rerun_eq:
  "live_rerun =
     (resumed [(''Id'', JStr ''m-7'')],
      \<lparr>table = [customer \<mapsto> live_session],
       calls = [(GetItemCommand, dbParams settings customer, Inr [(''Item'', live_session)]),
                (SendMessageCommand, messageParams (JStr ''Still here'') (JStr ''tok-live''),
                   Inr [(''Id'', JStr ''m-7'')]),
                (GetItemCommand, dbParams settings customer, Inr [(''Item'', live_session)]),
                (SendMessageCommand, messageParams (JStr ''Still here'') (JStr ''tok-live''),
                   Inr [(''Id'', JStr ''m-7'')])]\<rparr>)"
  by (simp add: live_rerun_def live_run_eq) (simp add: run_simps)

lemma broken_run_eq:
  "broken_run =
     (fatal unavailable,
      \<lparr>table = [customer \<mapsto> stale_session],
       calls = [(GetItemCommand, dbParams settings customer, Inr [(''Item'', stale_session)]),
                (SendMessageCommand, messageParams (JStr ''Hi'') (JStr ''tok-old''), Inl expired),
                (StartChatContactCommand,
                   startChatParams settings (JStr ''0'') customer (JStr ''c-1''),
                   Inl unavailable)]\<rparr>)"
  by (simp add: broken_run_def run_simps)

lemma agent_run_eq:
  "agent_run =
     (created (JStr ''c-2''),
      \<lparr>table = [customer \<mapsto> session_item customer (JStr ''c-2'') (JStr ''tok-new'')
                              (toString 1762251600)],
       calls = [(GetItemCommand, dbParams settings customer, Inr [(''Item'', tokenless_item)]),
                (StartChatContactCommand, startChatParams settings (JStr ''1'') customer JNull,
                   Inr [(''ContactId'', JStr ''c-2''), (''ParticipantToken'', JStr ''p-2'')]),
                (StartContactStreamingCommand, streamingParams settings (JStr ''c-2''),
                   Inr [(''StreamingId'', JStr ''s-2'')]),
                (CreateParticipantConnectionCommand, connectionParams (JStr ''p-2''),
                   Inr [(''ConnectionCredentials'',
                           JObj [(''ConnectionToken'', JStr ''tok-new'')])]),
                (PutItemCommand,
                   JObj [(''TableName'', JStr ''sessions''),
                         (''Item'', session_item customer (JStr ''c-2'') (JStr ''tok-new'')
                                      (toString 1762251600))],
                   Inr [])]\<rparr>)"
  by (simp add: agent_run_def run_simps)

lemma gateway_request:
  "read_request (deployment []) gateway_event = Inr (Accept JUndefined customer (JStr ''Hi''))"
proof -
  have "gateway_text \<noteq> []"
    by (simp add: gateway_text_def)
  then show ?thesis
    by (simp add: read_request_def gateway_event_def gateway_message_def deployment_def
        own_def customer_def)
qed

lemma gateway_invocation:
  "handler (deployment []) settings gateway_event w =
     (case resolve (deployment []) settings (JStr ''0'') customer (JStr ''Hi'') w of
        (r, w') \<Rightarrow> (Returned r, w'))"
  by (simp add: handler_def gateway_request)

lemma live_invocation_eq:
  "live_invocation =
     (Returned (resumed [(''Id'', JStr ''m-7'')]),
      \<lparr>table = [customer \<mapsto> live_session],
       calls = [(GetItemCommand, dbParams settings customer, Inr [(''Item'', live_session)]),
                (SendMessageCommand, messageParams (JStr ''Hi'') (JStr ''tok-live''),
                   Inr [(''Id'', JStr ''m-7'')])]\<rparr>)"
  by (simp add: live_invocation_def gateway_invocation) (simp add: run_simps)

lemma stale_invocation_eq:
  "fst stale_invocation = Returned (created (JStr ''c-2''))"
  "map fst (calls (snd stale_invocation)) =
     [GetItemCommand, SendMessageCommand, StartChatContactCommand,
      StartContactStreamingCommand, CreateParticipantConnectionCommand, SendMessageCommand,
      PutItemCommand]"
  "answer_to StartChatContactCommand (calls (snd stale_invocation)) =
     [(''ContactId'', JStr ''c-2''), (''ParticipantToken'', JStr ''p-2'')]"
  by (simp_all add: stale_invocation_def gateway_invocation)
     (simp_all add: run_simps answer_to_def response_def)

lemma stored_calls: "issued (stored item) v = calls v"
  by (simp add: issued_def stored_def)

lemma no_session_calls: "issued no_session v = calls v"
  by (simp add: issued_def no_session_def)

lemma agent_request:
  "read_request (deployment []) agent_event = Inr (Accept (JStr ''1'') customer (JStr ''Hi''))"
proof -
  have "agent_text \<noteq> []" "agent_text \<noteq> gateway_text"
    by (simp_all add: agent_text_def gateway_text_def)
  then show ?thesis
    by (simp add: read_request_def agent_event_def agent_message_def deployment_def
        own_def customer_def)
qed

lemma agent_invocation_eq:
  "fst agent_invocation = Returned (created (JStr ''c-2''))"
  "length (calls (snd agent_invocation)) = 5"
  "calls (snd agent_invocation) ! 3 =
     (CreateParticipantConnectionCommand, connectionParams (JStr ''p-2''),
      Inr [(''ConnectionCredentials'', JObj [(''ConnectionToken'', JStr ''tok-new'')])])"
  by (simp_all add: agent_invocation_def handler_def agent_request)
     (simp_all add: run_simps no_session_def)

lemma stale_invocation_connection:
  "length (calls (snd stale_invocation)) = 7"
  "calls (snd stale_invocation) ! 4 =
     (CreateParticipantConnectionCommand, connectionParams (JStr ''p-2''),
      Inr [(''ConnectionCredentials'', JObj [(''ConnectionToken'', JStr ''tok-new'')])])"
  by (simp_all add: stale_invocation_def gateway_invocation)
     (simp_all add: run_simps)

lemma gateway_request_broken:
  "read_request (deployment broken) gateway_event = Inr (Accept JUndefined customer (JStr ''Hi''))"
proof -
  have "gateway_text \<noteq> []"
    by (simp add: gateway_text_def)
  then show ?thesis
    by (simp add: read_request_def gateway_event_def gateway_message_def deployment_def
        own_def customer_def)
qed

subsection \<open>Reusing the stored connection\<close>

text \<open>
  Claim C2. When the lookup returns a record that holds a connection token and the send
  through that token succeeds, the resolver returns the result built from the send's
  response. The only commands it sends are the lookup and that send: no contact is
  created, no streaming is started, no participant connection is created, nothing is
  written. The table is as it was before the invocation.
\<close>

theorem reuse_success_leaves_record:
  assumes found: "fst (send sv GetItemCommand (dbParams cfg n) w) = Inr dbResponse"
    and held: "holds_session (own dbResponse ''Item'') cid tok"
    and sent: "fst (send sv SendMessageCommand (messageParams content (JStr tok))
                      (snd (send sv GetItemCommand (dbParams cfg n) w))) = Inr sendResponse"
    and run: "resolve sv cfg fm n content w = (r, w')"
  shows "r = resumed sendResponse
       \<and> map fst (issued w w') = [GetItemCommand, SendMessageCommand]
       \<and> table w' = table w"
  using run
proof (cases rule: resolve_cases)
  case (lookup e)
  with assms show ?thesis by simp
next
  case (unreadable e db)
  with found holds_session_reads [OF held] show ?thesis by simp
next
  case (resumed db w1 prev msg)
  with found sent holds_session_reads [OF held] show ?thesis
    by (simp add: issued_append)
next
  case (fallback db w1 prev err w2 res)
  with found sent holds_session_reads [OF held] show ?thesis by simp
next
  case (fresh db w1 res)
  with found holds_session_reads [OF held] show ?thesis by simp
qed

theorem reuse_success_leaves_record_witness:
  "fst (resolve (deployment []) settings (JStr ''0'') customer (JStr ''Still here'')
          (stored live_session)) = resumed [(''Id'', JStr ''m-7'')]
   \<and> map fst (issued (stored live_session)
          (snd (resolve (deployment []) settings (JStr ''0'') customer (JStr ''Still here'')
                  (stored live_session)))) = [GetItemCommand, SendMessageCommand]
   \<and> table (snd (resolve (deployment []) settings (JStr ''0'') customer (JStr ''Still here'')
                  (stored live_session))) = table (stored live_session)"
proof -
  have found: "fst (send (deployment []) GetItemCommand (dbParams settings customer)
                     (stored live_session)) = Inr [(''Item'', live_session)]"
    by (simp add: deployment_simps)
  have held: "holds_session (own [(''Item'', live_session)] ''Item'') ''c-1'' ''tok-live''"
    by (simp add: holds_session_def deployment_simps)
  have sent: "fst (send (deployment []) SendMessageCommand
                     (messageParams (JStr ''Still here'') (JStr ''tok-live''))
                     (snd (send (deployment []) GetItemCommand (dbParams settings customer)
                             (stored live_session)))) = Inr [(''Id'', JStr ''m-7'')]"
    by (simp add: deployment_simps)
  show ?thesis
    using reuse_success_leaves_record [OF found held sent surjective_pairing] by simp
qed

lemma reuse_step:
  assumes stored: "table w n = Some item" and held: "holds_session item cid tok"
    and readable: "\<forall>v. fault sv v GetItemCommand (dbParams cfg n) = None"
    and valid: "\<forall>v. \<exists>s. respond sv v SendMessageCommand (messageParams content (JStr tok)) = Inr s"
    and run: "resolve sv cfg fm n content w = (r, w')"
  shows "(\<exists>s. r = resumed s) \<and> table w' = table w"
proof -
  have found: "fst (send sv GetItemCommand (dbParams cfg n) w) = Inr [(''Item'', item)]"
    using readable stored by (simp add: lookup_reads_table)
  have reads: "truthy item" "truthy (peek item ''ConnectionToken'')"
    "peek (peek item ''ConnectionToken'') ''S'' = JStr tok"
    "get_prop (peek item ''ContactId'') ''S'' = Inr (JStr cid)"
    using holds_session_reads [OF held] by simp_all
  have sent: "fst (send sv SendMessageCommand (messageParams content (JStr tok)) v) \<noteq> Inl e"
    for v e
    using valid [rule_format, of v] by (auto simp: send_message_answer)
  from run show ?thesis
  proof (cases rule: resolve_cases)
    case (lookup e)
    with found show ?thesis by simp
  next
    case (unreadable e db)
    with found reads show ?thesis by (simp add: own_def)
  next
    case (resumed db w1 prev msg)
    then show ?thesis by blast
  next
    case (fallback db w1 prev err w2 res)
    with found reads sent [of w1 err] show ?thesis by (simp add: own_def)
  next
    case (fresh db w1 res)
    with found reads show ?thesis by (simp add: own_def)
  qed
qed

text \<open>
  Claim C9. Resolving is idempotent on the reuse path. Let the table hold, for the
  originating number, a record with a connection token, let lookups of that number not
  fail and let every send of the message through that token succeed. Then two runs of
  the resolver in a row, with the same message, both return status code 200 with the
  status \<open>Resumed\<close>, and the table after each run is the table before the first.
\<close>

theorem reuse_twice_is_stable:
  assumes "table w n = Some item" and "holds_session item cid tok"
    and "\<forall>v. fault sv v GetItemCommand (dbParams cfg n) = None"
    and "\<forall>v. \<exists>s. respond sv v SendMessageCommand (messageParams content (JStr tok)) = Inr s"
    and "resolve sv cfg fm n content w = (r1, w1)"
    and "resolve sv cfg fm n content w1 = (r2, w2)"
  shows "(\<exists>s1 s2. r1 = resumed s1 \<and> r2 = resumed s2)
       \<and> statusCode r1 = 200 \<and> body_field r1 ''status'' = JStr ''Resumed''
       \<and> statusCode r2 = 200 \<and> body_field r2 ''status'' = JStr ''Resumed''
       \<and> table w1 = table w \<and> table w2 = table w"
proof -
  have one: "(\<exists>s. r1 = resumed s) \<and> table w1 = table w"
    using assms(1-5) by (rule reuse_step)
  then have "table w1 n = Some item"
    using assms(1) by simp
  then have two: "(\<exists>s. r2 = resumed s) \<and> table w2 = table w1"
    using assms(2-4,6) by (rule reuse_step)
  from one two show ?thesis
    by (auto simp: resumed_shape)
qed

theorem reuse_twice_is_stable_witness:
  "(\<exists>s1 s2. fst live_run = resumed s1 \<and> fst live_rerun = resumed s2)
   \<and> statusCode (fst live_run) = 200 \<and> body_field (fst live_run) ''status'' = JStr ''Resumed''
   \<and> statusCode (fst live_rerun) = 200
   \<and> body_field (fst live_rerun) ''status'' = JStr ''Resumed''
   \<and> table (snd live_run) = table (stored live_session)
   \<and> table (snd live_rerun) = table (stored live_session)"
proof -
  have stored: "table (stored live_session) customer = Some live_session"
    by (simp add: stored_def)
  have held: "holds_session live_session ''c-1'' ''tok-live''"
    by (simp add: holds_session_def deployment_simps)
  have readable: "\<forall>v. fault (deployment []) v GetItemCommand (dbParams settings customer) = None"
    by (simp add: deployment_def)
  have valid: "\<forall>v. \<exists>s. respond (deployment []) v SendMessageCommand
                        (messageParams (JStr ''Still here'') (JStr ''tok-live'')) = Inr s"
    by (simp add: deployment_def messageParams_def own_def)
  have first: "resolve (deployment []) settings (JStr ''0'') customer (JStr ''Still here'')
                 (stored live_session) = (fst live_run, snd live_run)"
    by (simp add: live_run_def)
  have second: "resolve (deployment []) settings (JStr ''0'') customer (JStr ''Still here'')
                  (snd live_run) = (fst live_rerun, snd live_rerun)"
    by (simp add: live_rerun_def)
  show ?thesis
    using reuse_twice_is_stable [OF stored held readable valid first second] by simp
qed

subsection \<open>Creating a session\<close>




text \<open>
  Claim C4, as amended. The request that creates a contact asks for rehydration exactly
  when the reuse of a stored connection was attempted and failed and the contact id
  stored with that connection is not empty; the source is then that contact id. When
  the looked-up item has no connection token, the reuse is not attempted, the creation
  is the second command, and its request carries no rehydration, whatever contact id
  the item holds.
\<close>

theorem rehydration_only_after_failed_reuse:
  assumes found: "fst (send sv GetItemCommand (dbParams cfg n) w) = Inr dbResponse"
    and run: "resolve sv cfg fm n content w = (r, w')"
    and i: "i < length (issued w w')"
    and creation: "issued w w' ! i = (StartChatContactCommand, p, out)"
  shows "(if truthy (own dbResponse ''Item'')
             \<and> truthy (peek (own dbResponse ''Item'') ''ConnectionToken'')
          then i = 2
             \<and> (\<exists>q err. issued w w' ! 1 = (SendMessageCommand, q, Inl err))
             \<and> peek p ''PersistentChat'' =
                 (if truthy (peek (peek (own dbResponse ''Item'') ''ContactId'') ''S'')
                  then rehydration (peek (peek (own dbResponse ''Item'') ''ContactId'') ''S'')
                  else JUndefined)
          else i = 1 \<and> peek p ''PersistentChat'' = JUndefined)"
proof -
  note at = at_index [OF i creation]
  from run show ?thesis
  proof (cases rule: resolve_cases)
    case (fallback db w1 prev err w2 res)
    with found have db: "db = dbResponse" by simp
    from fallback(8) show ?thesis
      by (cases rule: create_session_cases)
        (use fallback(2,3,4,6,7) db at in
          \<open>auto simp: log_simps persistent_chat dest: get_prop_peek\<close>)
  next
    case (fresh db w1 res)
    with found have db: "db = dbResponse" by simp
    from fresh(5) show ?thesis
      by (cases rule: create_session_cases)
        (use fresh(2,3,4) db at in \<open>auto simp: log_simps persistent_chat\<close>)
  qed (use at in \<open>auto simp: log_simps\<close>)
qed

theorem rehydration_only_after_failed_reuse_witness:
  "(\<exists>q err. issued (stored stale_session) (snd stale_run) ! 1 = (SendMessageCommand, q, Inl err))
   \<and> peek (startChatParams settings (JStr ''0'') customer (JStr ''c-1'')) ''PersistentChat''
       = rehydration (JStr ''c-1'')
   \<and> peek (startChatParams settings (JStr ''1'') customer JNull) ''PersistentChat''
       = JUndefined"
proof -
  have found: "fst (send (deployment []) GetItemCommand (dbParams settings customer)
                     (stored stale_session)) = Inr [(''Item'', stale_session)]"
    by (simp add: deployment_simps)
  have run: "resolve (deployment []) settings (JStr ''0'') customer (JStr ''Hi'')
               (stored stale_session) = (fst stale_run, snd stale_run)"
    by (simp add: stale_run_def)
  have i: "2 < length (issued (stored stale_session) (snd stale_run))"
    by (simp add: stale_run_eq stored_calls)
  have creation: "issued (stored stale_session) (snd stale_run) ! 2 =
      (StartChatContactCommand, startChatParams settings (JStr ''0'') customer (JStr ''c-1''),
       Inr [(''ContactId'', JStr ''c-2''), (''ParticipantToken'', JStr ''p-2'')])"
    by (simp add: stale_run_eq stored_calls)
  have found': "fst (send (deployment []) GetItemCommand (dbParams settings customer)
                      (stored tokenless_item)) = Inr [(''Item'', tokenless_item)]"
    by (simp add: deployment_simps)
  have run': "resolve (deployment []) settings (JStr ''1'') customer (JStr ''Hi'')
                (stored tokenless_item) = (fst agent_run, snd agent_run)"
    by (simp add: agent_run_def)
  have i': "1 < length (issued (stored tokenless_item) (snd agent_run))"
    by (simp add: agent_run_eq stored_calls)
  have creation': "issued (stored tokenless_item) (snd agent_run) ! 1 =
      (StartChatContactCommand, startChatParams settings (JStr ''1'') customer JNull,
       Inr [(''ContactId'', JStr ''c-2''), (''ParticipantToken'', JStr ''p-2'')])"
    by (simp add: agent_run_eq stored_calls)
  have item: "truthy (own [(''Item'', stale_session)] ''Item'')"
    "truthy (peek (own [(''Item'', stale_session)] ''Item'') ''ConnectionToken'')"
    "peek (peek (own [(''Item'', stale_session)] ''Item'') ''ContactId'') ''S'' = JStr ''c-1''"
    "\<not> truthy (peek (own [(''Item'', tokenless_item)] ''Item'') ''ConnectionToken'')"
    by (simp_all add: deployment_simps)
  show ?thesis
    using rehydration_only_after_failed_reuse [OF found run i creation]
      rehydration_only_after_failed_reuse [OF found' run' i' creation'] item
    by simp
qed

text \<open>
  The specification also asks for rehydration when the looked-up item contains a
  contact id and the reuse path is not taken. For the item without a token the handler
  creates the contact with no rehydration, although the item holds the contact id
  \<open>c-1\<close>.
\<close>

theorem tokenless_item_counterexample:
  "fst (send (deployment []) GetItemCommand (dbParams settings customer)
          (stored tokenless_item)) = Inr [(''Item'', tokenless_item)]
   \<and> peek (peek tokenless_item ''ContactId'') ''S'' = JStr ''c-1''
   \<and> fst (issued (stored tokenless_item) (snd agent_run) ! 1) = StartChatContactCommand
   \<and> peek (fst (snd (issued (stored tokenless_item) (snd agent_run) ! 1))) ''PersistentChat''
       = JUndefined
   \<and> statusCode (fst agent_run) = 200"
  by (simp add: agent_run_eq stored_calls persistent_chat result_codes)
     (simp add: deployment_simps)

lemma send_after_connection:
  assumes run: "resolve sv cfg fm n content w = (r, w')"
    and i: "i < length (issued w w')"
    and connected: "issued w w' ! i = (CreateParticipantConnectionCommand, p, Inr connectionResp)"
    and token: "get_prop (own connectionResp ''ConnectionCredentials'') ''ConnectionToken'' = Inr newToken"
  shows "(if fm = JStr ''0''
          then Suc i < length (issued w w')
             \<and> fst (issued w w' ! Suc i) = SendMessageCommand
             \<and> fst (snd (issued w w' ! Suc i)) = messageParams content newToken
          else map fst (drop i (issued w w')) =
                 [CreateParticipantConnectionCommand, PutItemCommand])"
proof -
  note at = at_index [OF i connected]
  from run show ?thesis
  proof (cases rule: resolve_cases)
    case (fallback db w1 prev err w2 res)
    from fallback(8) show ?thesis
      by (cases rule: create_session_cases)
        (use fallback at token in \<open>auto simp: issued_append\<close>)
  next
    case (fresh db w1 res)
    from fresh(5) show ?thesis
      by (cases rule: create_session_cases)
        (use fresh at token in \<open>auto simp: issued_append\<close>)
  qed (use at in \<open>auto simp: issued_append\<close>)
qed

text \<open>
  Claim C7, as amended. Take an invocation that passed validation, created the contact,
  started streaming and got a token from the new participant connection. The
  first-message flag is the one read from the event, replaced by the string \<open>0\<close> when
  it is missing or falsy (lines 69 to 72); on the \<open>/modica\<close> path it is always
  missing and on the \<open>/salesforce\<close> path never. If the flag after this defaulting is
  the string \<open>0\<close>, the next command is the send of the message content through the new
  token; otherwise no message is sent and the only command after the connection is the
  write of the session record.
\<close>

theorem first_message_sent_iff_flag_zero:
  assumes request: "read_request sv event = Inr (Accept fm n content)"
    and run: "handler sv cfg event w = (out, w')"
    and i: "i < length (issued w w')"
    and connected: "issued w w' ! i = (CreateParticipantConnectionCommand, p, Inr connectionResp)"
    and token: "get_prop (own connectionResp ''ConnectionCredentials'') ''ConnectionToken'' = Inr newToken"
  shows "(if \<not> truthy fm \<or> fm = JStr ''0''
          then Suc i < length (issued w w')
             \<and> fst (issued w w' ! Suc i) = SendMessageCommand
             \<and> fst (snd (issued w w' ! Suc i)) = messageParams content newToken
          else map fst (drop i (issued w w')) =
                 [CreateParticipantConnectionCommand, PutItemCommand])
       \<and> (get_prop event ''rawPath'' = Inr (JStr ''/modica'') \<longrightarrow> fm = JUndefined)
       \<and> (get_prop event ''rawPath'' = Inr (JStr ''/salesforce'') \<longrightarrow> truthy fm)"
  using run
proof (cases rule: handler_cases)
  case (thrown e)
  with request show ?thesis by simp
next
  case (rejected res)
  with request show ?thesis by simp
next
  case (accepted fm' n' content' r)
  with request have same: "fm' = fm" "n' = n" "content' = content"
    by simp_all
  note sent = send_after_connection [OF accepted(2) [unfolded same] i connected token]
  show ?thesis
  proof (cases "truthy fm")
    case True
    with sent request_flag [OF request] show ?thesis by simp
  next
    case False
    with sent request_flag [OF request] show ?thesis by simp
  qed
qed

theorem first_message_sent_iff_flag_zero_witness:
  "5 < length (issued (stored stale_session) (snd stale_invocation))
   \<and> fst (issued (stored stale_session) (snd stale_invocation) ! 5) = SendMessageCommand
   \<and> fst (snd (issued (stored stale_session) (snd stale_invocation) ! 5))
       = messageParams (JStr ''Hi'') (JStr ''tok-new'')
   \<and> map fst (drop 3 (issued no_session (snd agent_invocation)))
       = [CreateParticipantConnectionCommand, PutItemCommand]"
proof -
  have run: "handler (deployment []) settings gateway_event (stored stale_session)
               = (fst stale_invocation, snd stale_invocation)"
    by (simp add: stale_invocation_def)
  have connected: "4 < length (issued (stored stale_session) (snd stale_invocation))"
    "issued (stored stale_session) (snd stale_invocation) ! 4 =
       (CreateParticipantConnectionCommand, connectionParams (JStr ''p-2''),
        Inr [(''ConnectionCredentials'', JObj [(''ConnectionToken'', JStr ''tok-new'')])])"
    by (simp_all add: stale_invocation_connection stored_calls)
  have run': "handler (deployment []) settings agent_event no_session
                = (fst agent_invocation, snd agent_invocation)"
    by (simp add: agent_invocation_def)
  have connected': "3 < length (issued no_session (snd agent_invocation))"
    "issued no_session (snd agent_invocation) ! 3 =
       (CreateParticipantConnectionCommand, connectionParams (JStr ''p-2''),
        Inr [(''ConnectionCredentials'', JObj [(''ConnectionToken'', JStr ''tok-new'')])])"
    by (simp_all add: agent_invocation_eq no_session_calls)
  have token: "get_prop (own [(''ConnectionCredentials'',
                                 JObj [(''ConnectionToken'', JStr ''tok-new'')])]
                           ''ConnectionCredentials'') ''ConnectionToken'' = Inr (JStr ''tok-new'')"
    by (simp add: own_def)
  show ?thesis
    using first_message_sent_iff_flag_zero [OF gateway_request run connected token]
      first_message_sent_iff_flag_zero [OF agent_request run' connected' token]
    by simp
qed

text \<open>
  The claim as the specification words it speaks of every invocation that creates a
  contact. When streaming is down, the gateway's message (flag defaulted to \<open>0\<close>)
  creates the contact and ends with the 500 result: no participant connection is
  created and no message is sent.
\<close>

theorem streaming_down_counterexample:
  "read_request (deployment [StartContactStreamingCommand]) gateway_event
     = Inr (Accept JUndefined customer (JStr ''Hi''))
   \<and> fst streaming_down_invocation =
       Returned \<lparr>statusCode = 500, body = Json [(''error'', JStr ''Service unavailable'')]\<rparr>
   \<and> issued no_session (snd streaming_down_invocation) =
       [(GetItemCommand, dbParams settings customer, Inr []),
        (StartChatContactCommand, startChatParams settings (JStr ''0'') customer JNull,
           Inr [(''ContactId'', JStr ''c-2''), (''ParticipantToken'', JStr ''p-2'')]),
        (StartContactStreamingCommand, streamingParams settings (JStr ''c-2''),
           Inl unavailable)]"
  by (simp add: streaming_down_invocation_def handler_def gateway_request_broken
      no_session_calls)
     (simp add: run_simps no_session_def fatal_def stringify_def)

subsection \<open>Failures\<close>

text \<open>
  Claim C5. A failed command is recovered from only if it is the send issued right after
  the lookup (the reuse of the stored connection): then the creation of a contact
  follows. Every other failed command (the lookup, the creation of the contact, the
  start of streaming, the creation of the participant connection, the send on the new
  connection, the write of the record) is the last command of the invocation, so nothing
  is retried, and the result is status code 500 with the message of that error.
\<close>

theorem only_reuse_failure_is_recovered:
  assumes run: "resolve sv cfg fm n content w = (r, w')"
    and i: "i < length (issued w w')"
    and failed: "issued w w' ! i = (c, p, Inl e)"
  shows "(if c = SendMessageCommand \<and> i = 1
          then 2 < length (issued w w') \<and> fst (issued w w' ! 2) = StartChatContactCommand
          else Suc i = length (issued w w')
             \<and> statusCode r = 500
             \<and> body r = stringify [(''error'', JStr (message e))])"
proof -
  note at = at_index [OF i failed]
  from run show ?thesis
  proof (cases rule: resolve_cases)
    case (fallback db w1 prev err w2 res)
    from fallback(8) show ?thesis
      by (cases rule: create_session_cases)
        (use fallback(6,7,9) at in \<open>auto simp: issued_append fatal_def\<close>)
  next
    case (fresh db w1 res)
    from fresh(5) show ?thesis
      by (cases rule: create_session_cases)
        (use fresh(3,4,6) at in \<open>auto simp: issued_append fatal_def\<close>)
  qed (use at in \<open>auto simp: issued_append fatal_def\<close>)
qed

theorem only_reuse_failure_is_recovered_witness:
  "fst (issued (stored stale_session) (snd broken_run) ! 2) = StartChatContactCommand
   \<and> length (issued (stored stale_session) (snd broken_run)) = 3
   \<and> statusCode (fst broken_run) = 500
   \<and> body (fst broken_run) = stringify [(''error'', JStr (message unavailable))]"
proof -
  have run: "resolve (deployment [StartChatContactCommand]) settings (JStr ''0'') customer
               (JStr ''Hi'') (stored stale_session) = (fst broken_run, snd broken_run)"
    by (simp add: broken_run_def)
  have reuse: "1 < length (issued (stored stale_session) (snd broken_run))"
    "issued (stored stale_session) (snd broken_run) ! 1 =
       (SendMessageCommand, messageParams (JStr ''Hi'') (JStr ''tok-old''), Inl expired)"
    by (simp_all add: broken_run_eq stored_calls)
  have creation: "2 < length (issued (stored stale_session) (snd broken_run))"
    "issued (stored stale_session) (snd broken_run) ! 2 =
       (StartChatContactCommand, startChatParams settings (JStr ''0'') customer (JStr ''c-1''),
        Inl unavailable)"
    by (simp_all add: broken_run_eq stored_calls)
  show ?thesis
    using only_reuse_failure_is_recovered [OF run reuse]
      only_reuse_failure_is_recovered [OF run creation]
    by simp
qed



subsection \<open>The result returned to the caller\<close>

lemma resolve_shape:
  assumes run: "resolve sv cfg fm n content w = (r, w')" and ok: "statusCode r = 200"
  shows "(if StartChatContactCommand \<in> set (map fst (issued w w'))
          then r = created (own (answer_to StartChatContactCommand (issued w w')) ''ContactId'')
          else r = resumed (answer_to SendMessageCommand (issued w w')))"
  using run
proof (cases rule: resolve_cases)
  case (fallback db w1 prev err w2 res)
  from fallback(8) show ?thesis
    by (cases rule: create_session_cases)
      (use fallback(6,7,9) ok in \<open>auto simp: log_simps result_codes\<close>)
next
  case (fresh db w1 res)
  from fresh(5) show ?thesis
    by (cases rule: create_session_cases)
      (use fresh(3,4,6) ok in \<open>auto simp: log_simps result_codes\<close>)
qed (use ok in \<open>auto simp: log_simps result_codes\<close>)

text \<open>
  Claim C3, as amended. A result with status code 200 has one of two bodies. When a
  contact was created, the body is the JSON text of the status
  \<open>Created entry in DDB\<close> and the contact id that the creation returned. When the stored
  connection was reused, it is the JSON text of the status \<open>Resumed\<close> and the id of
  the message sent; it has no contact id.
\<close>

theorem returned_body_shape:
  assumes run: "handler sv cfg event w = (Returned r, w')" and ok: "statusCode r = 200"
  shows "(if StartChatContactCommand \<in> set (map fst (issued w w'))
          then body r = stringify
                 [(''status'', JStr ''Created entry in DDB''),
                  (''contactId'',
                     own (answer_to StartChatContactCommand (issued w w')) ''ContactId'')]
          else body r = stringify
                 [(''status'', JStr ''Resumed''),
                  (''messageId'', own (answer_to SendMessageCommand (issued w w')) ''Id'')])"
  using run
proof (cases rule: handler_cases)
  case (thrown e)
  then show ?thesis by simp
next
  case (rejected res)
  with ok read_request_rejects [OF rejected(1)] show ?thesis
    by (simp add: missing_data_def)
next
  case (accepted fm n content r')
  with ok resolve_shape [OF accepted(2)] show ?thesis
    by (auto simp: created_def resumed_def)
qed

theorem returned_body_shape_witness:
  "body (resumed [(''Id'', JStr ''m-7'')]) =
     stringify [(''status'', JStr ''Resumed''),
                (''messageId'',
                   own (answer_to SendMessageCommand
                          (issued (stored live_session) (snd live_invocation))) ''Id'')]
   \<and> body (created (JStr ''c-2'')) =
     stringify [(''status'', JStr ''Created entry in DDB''),
                (''contactId'',
                   own (answer_to StartChatContactCommand
                          (issued (stored stale_session) (snd stale_invocation)))
                     ''ContactId'')]"
proof -
  have run: "handler (deployment []) settings gateway_event (stored live_session)
               = (Returned (resumed [(''Id'', JStr ''m-7'')]), snd live_invocation)"
    using live_invocation_eq by (simp add: live_invocation_def)
  have reused: "StartChatContactCommand
                  \<notin> set (map fst (issued (stored live_session) (snd live_invocation)))"
    by (simp add: live_invocation_eq stored_calls)
  have run': "handler (deployment []) settings gateway_event (stored stale_session)
               = (Returned (created (JStr ''c-2'')), snd stale_invocation)"
    using stale_invocation_eq(1) by (simp add: stale_invocation_def prod_eq_iff)
  have created: "StartChatContactCommand
                   \<in> set (map fst (issued (stored stale_session) (snd stale_invocation)))"
    by (simp add: stale_invocation_eq stored_calls)
  show ?thesis
    using returned_body_shape [OF run result_codes(3)]
      returned_body_shape [OF run' result_codes(2)] reused created
    by simp
qed

text \<open>
  The specification gives both bodies a contact id and names the second status
  \<open>Created\<close>. The gateway's message on a live session returns a body with a message
  id and no contact id; on a stale session it returns the status
  \<open>Created entry in DDB\<close>.
\<close>

theorem returned_body_counterexample:
  "fst live_invocation =
     Returned \<lparr>statusCode = 200,
               body = Json [(''status'', JStr ''Resumed''), (''messageId'', JStr ''m-7'')]\<rparr>
   \<and> fst stale_invocation =
     Returned \<lparr>statusCode = 200,
               body = Json [(''status'', JStr ''Created entry in DDB''),
                            (''contactId'', JStr ''c-2'')]\<rparr>"
  by (simp add: live_invocation_eq stale_invocation_eq resumed_def created_def stringify_def
      own_def)

subsection \<open>Validation\<close>

text \<open>
  Claim C8, as amended. Let the body of the event be absent or empty, or be a text that
  \<open>JSON.parse\<close> accepts. If the path is neither \<open>/salesforce\<close> nor \<open>/modica\<close>, or
  if the path is one of the two, the body did not parse to \<open>null\<close> and a required
  field is missing or falsy (\<open>originatingNumber\<close> or \<open>firstMessage\<close> on
  \<open>/salesforce\<close>, \<open>source\<close> or \<open>destination\<close> on \<open>/modica\<close>), the handler
  returns status code 400 with the body \<open>Missing data\<close> and the world is untouched:
  no command is sent and the table is not written.
\<close>

theorem validation_rejects_before_any_call:
  assumes path: "get_prop event ''rawPath'' = Inr rawPath"
    and raw: "get_prop event ''body'' = Inr eventBody"
    and parsed: "(if truthy eventBody then json_parse sv eventBody else Inr (JObj []))
                   = Inr parsedBody"
    and missing:
      "(rawPath = JStr ''/salesforce'' \<and> \<not> nullish parsedBody
          \<and> (\<not> truthy (peek parsedBody ''originatingNumber'')
               \<or> \<not> truthy (peek parsedBody ''firstMessage'')))
       \<or> (rawPath = JStr ''/modica'' \<and> \<not> nullish parsedBody
          \<and> (\<not> truthy (peek parsedBody ''source'')
               \<or> \<not> truthy (peek parsedBody ''destination'')))
       \<or> (rawPath \<noteq> JStr ''/salesforce'' \<and> rawPath \<noteq> JStr ''/modica'')"
  shows "handler sv cfg event w = (Returned \<lparr>statusCode = 400, body = Text ''Missing data''\<rparr>, w)"
proof -
  have reads: "get_prop parsedBody k = Inr (peek parsedBody k)" if "\<not> nullish parsedBody" for k
    using that by (cases parsedBody) (simp_all add: nullish_def)
  have "read_request sv event = Inr (Reject missing_data)"
    using missing path raw parsed
    by (auto simp: read_request_def reads simp del: truthy.simps)
  then show ?thesis
    by (simp add: handler_def missing_data_def)
qed

theorem validation_rejects_before_any_call_witness:
  "handler (deployment []) settings empty_event (stored live_session)
     = (Returned \<lparr>statusCode = 400, body = Text ''Missing data''\<rparr>, stored live_session)"
proof -
  have path: "get_prop empty_event ''rawPath'' = Inr (JStr ''/salesforce'')"
    and raw: "get_prop empty_event ''body'' = Inr (JStr ''{}'')"
    by (simp_all add: empty_event_def own_def)
  have parsed: "(if truthy (JStr ''{}'') then json_parse (deployment []) (JStr ''{}'')
                 else Inr (JObj [])) = Inr (JObj [])"
    by (simp add: deployment_def gateway_text_def agent_text_def)
  have missing:
    "(JStr ''/salesforce'' = JStr ''/salesforce'' \<and> \<not> nullish (JObj [])
        \<and> (\<not> truthy (peek (JObj []) ''originatingNumber'')
             \<or> \<not> truthy (peek (JObj []) ''firstMessage'')))
     \<or> (JStr ''/salesforce'' = JStr ''/modica'' \<and> \<not> nullish (JObj [])
        \<and> (\<not> truthy (peek (JObj []) ''source'')
             \<or> \<not> truthy (peek (JObj []) ''destination'')))
     \<or> (JStr ''/salesforce'' \<noteq> JStr ''/salesforce'' \<and> JStr ''/salesforce'' \<noteq> JStr ''/modica'')"
    by (simp add: nullish_def own_def)
  show ?thesis
    using validation_rejects_before_any_call [OF path raw parsed missing] .
qed

text \<open>
  Without the condition on the body the claim fails: a body that is not JSON, on a path
  that is neither of the two, ends the invocation with the SyntaxError, and the body
  \<open>null\<close> on the \<open>/salesforce\<close> path ends it with a TypeError. Neither returns the
  400 result.
\<close>

theorem validation_counterexample:
  "get_prop truncated_event ''rawPath'' = Inr (JStr ''/status'')
   \<and> handler (deployment []) settings truncated_event (stored live_session)
       = (Thrown syntax_error, stored live_session)
   \<and> get_prop null_event ''rawPath'' = Inr (JStr ''/salesforce'')
   \<and> handler (deployment []) settings null_event (stored live_session)
       = (Thrown (type_error ''null'' ''firstMessage''), stored live_session)"
  by (simp add: truncated_event_def null_event_def own_def handler_def read_request_def
      deployment_def gateway_text_def agent_text_def)

text \<open>
  Claim C10. When the body of the event is a non-empty string that \<open>JSON.parse\<close>
  rejects, the invocation ends with the error \<open>JSON.parse\<close> threw: the handler returns
  no result, neither the 400 result nor the 500 result, and the world is untouched.
\<close>

theorem invalid_json_body_throws:
  assumes raw: "get_prop event ''body'' = Inr (JStr s)"
    and nonempty: "s \<noteq> []"
    and invalid: "json_parse sv (JStr s) = Inl e"
  shows "handler sv cfg event w = (Thrown e, w)"
proof -
  obtain rawPath where "get_prop event ''rawPath'' = Inr rawPath"
    using raw by (cases event) simp_all
  with assms have "read_request sv event = Inl e"
    by (simp add: read_request_def)
  then show ?thesis
    by (simp add: handler_def)
qed

theorem invalid_json_body_throws_witness:
  "handler (deployment []) settings garbled_event (stored live_session)
     = (Thrown syntax_error, stored live_session)"
proof -
  have raw: "get_prop garbled_event ''body'' = Inr (JStr ''hello'')"
    by (simp add: garbled_event_def own_def)
  have nonempty: "''hello'' \<noteq> []"
    by simp
  have invalid: "json_parse (deployment []) (JStr ''hello'') = Inl syntax_error"
    by (simp add: deployment_def gateway_text_def agent_text_def)
  show ?thesis
    using invalid_json_body_throws [OF raw nonempty invalid] .
qed

end
